theory Spec2Isabelle
  imports Main "HOL-Library.Word"
begin

section \<open>Strings and numbers of the host language\<close>

text \<open>
  A JavaScript string is a sequence of UTF-16 code units. Literals of the source are
  written with \<open>js\<close>, which maps every ASCII character to its code unit.
\<close>

type_synonym js_string = "16 word list"

definition js :: "string \<Rightarrow> js_string" where
  "js s = map of_char s"

text \<open>
  \<open>String.prototype.trim\<close> removes, at both ends, the code units that ECMAScript calls
  WhiteSpace (TAB, VT, FF, ZWNBSP and the Unicode space separators) or LineTerminator
  (LF, CR, LS, PS).
\<close>

definition isWhiteSpace :: "16 word \<Rightarrow> bool" where
  "isWhiteSpace c =
     (c \<in> set [0x0009, 0x000A, 0x000B, 0x000C, 0x000D, 0x0020, 0x00A0, 0x1680,
               0x2028, 0x2029, 0x202F, 0x205F, 0x3000, 0xFEFF]
      \<or> (0x2000 \<le> c \<and> c \<le> 0x200A))"

definition trim :: "js_string \<Rightarrow> js_string" where
  "trim s = rev (dropWhile isWhiteSpace (rev (dropWhile isWhiteSpace s)))"

text \<open>
  \<open>Number.prototype.toString\<close> on a non-negative integer: its decimal digits, most
  significant first, no sign and no leading zero. The stopwatch counter starts at 0 and
  grows by 1 per tick, so it is a non-negative integer that never passes \<open>2^53\<close>. Up to
  there the host's doubles hold it exactly, \<open>%\<close> is exact, \<open>Math.floor(seconds / 60)\<close> is
  the integer quotient (the rounded quotient cannot reach the next integer: it is at
  least \<open>1/60\<close> away and the doubles near it are \<open>2^-5\<close> apart or closer) and \<open>toString\<close>
  prints plain digits (it turns to exponent notation only from \<open>10^21\<close>). The counter is
  modelled as \<open>nat\<close>; \<open>toString\<close> and \<open>formatStopwatch\<close> below stand for the source on
  arguments up to \<open>2^53\<close> only, and the property of \<open>formatStopwatch\<close> is stated for that
  range.
\<close>

definition digit_char :: "nat \<Rightarrow> 16 word" where
  "digit_char d = of_nat (48 + d)"

fun toString :: "nat \<Rightarrow> js_string" where
  "toString n = (if n < 10 then [digit_char n] else toString (n div 10) @ [digit_char (n mod 10)])"

declare toString.simps [simp del]

text \<open>
  \<open>s.padStart(targetLength, fillString)\<close>: a string already long enough, or an empty
  filler, gives \<open>s\<close> back; otherwise the filler is repeated and cut to the missing length.
\<close>

definition padStart :: "nat \<Rightarrow> js_string \<Rightarrow> js_string \<Rightarrow> js_string" where
  "padStart targetLength fillString s =
     (if targetLength \<le> length s \<or> fillString = [] then s
      else take (targetLength - length s)
             (concat (replicate (targetLength - length s) fillString)) @ s)"

text \<open>
  \<^verbatim>\<open>
  const formatStopwatch = (seconds: number) => {
    const m = Math.floor(seconds / 60).toString().padStart(2, '0');
    const s = (seconds % 60).toString().padStart(2, '0');
    return `${m}:${s}`;
  };
  \<close>
\<close>

definition formatStopwatch :: "nat \<Rightarrow> js_string" where
  "formatStopwatch seconds =
     (let m = padStart 2 (js ''0'') (toString (seconds div 60));
          s = padStart 2 (js ''0'') (toString (seconds mod 60))
      in m @ js '':'' @ s)"

text \<open>Reading a field of decimal digits back: \<open>None\<close> when a code unit is not a digit.\<close>

definition digit_value :: "16 word \<Rightarrow> nat option" where
  "digit_value c = (if 48 \<le> unat c \<and> unat c \<le> 57 then Some (unat c - 48) else None)"

fun digits_value_from :: "nat \<Rightarrow> js_string \<Rightarrow> nat option" where
  "digits_value_from acc [] = Some acc"
| "digits_value_from acc (c # cs) =
     (case digit_value c of None \<Rightarrow> None | Some d \<Rightarrow> digits_value_from (10 * acc + d) cs)"

definition digits_value :: "js_string \<Rightarrow> nat option" where
  "digits_value s = (if s = [] then None else digits_value_from 0 s)"

section \<open>Task records and the remote store\<close>

text \<open>
  \<^verbatim>\<open>type Todo = { id: number; text: string; description: string; completed: boolean; time: string }\<close>
  The field names carry the suffix \<open>_t\<close>: \<open>id\<close> is a constant of HOL and \<open>description\<close> is
  also a state variable of the component.
\<close>

record todo =
  id_t :: int
  text_t :: js_string
  description_t :: js_string
  completed_t :: bool
  time_t :: js_string

text \<open>The object handed to \<open>insert\<close>: a row without its identifier.\<close>

record new_todo =
  text_n :: js_string
  description_n :: js_string
  completed_n :: bool
  time_n :: js_string

text \<open>
  The four queries the component builds against the table \<open>todos\<close>:
  \<^item> \<open>Select cols col asc\<close> is \<open>.select(cols).order(col, { ascending: asc })\<close>;
  \<^item> \<open>Insert rows\<close> is \<open>.insert(rows).select()\<close>;
  \<^item> \<open>Update c i\<close> is \<open>.update({ completed: c }).eq('id', i).select()\<close>;
  \<^item> \<open>Delete i\<close> is \<open>.delete().eq('id', i)\<close>.
\<close>

datatype request =
    Select js_string js_string bool
  | Insert "new_todo list"
  | Update bool int
  | Delete int

text \<open>
  The client answers \<open>{ data, error }\<close>: either an error object with a message, or the
  rows. The store is outside the program; a handler receives it as the function that
  answers the query the handler sends.
\<close>

datatype store_error = StoreError (message: js_string)

type_synonym response = "store_error + todo list"

type_synonym store = "request \<Rightarrow> response"

section \<open>Component state\<close>

text \<open>
  The state variables of \<open>App\<close> (the wall-clock value \<open>currentTime\<close>, which only feeds the
  display, is left out). An element of a JavaScript array typed \<open>Todo[]\<close> can still be
  \<open>undefined\<close> at run time, so the list holds \<open>todo option\<close> with \<open>None\<close> for \<open>undefined\<close>.
\<close>

record app_state =
  todos :: "todo option list"
  input :: js_string
  description :: js_string
  darkMode :: bool
  stopwatchTime :: nat
  isRunning :: bool

definition initial_state :: app_state where
  "initial_state =
     \<lparr>todos = [], input = [], description = [], darkMode = True,
      stopwatchTime = 0, isRunning = False\<rparr>"

text \<open>
  What a handler can touch: the component state, the lines written with
  \<open>console.error\<close> (each line is the list of its arguments) and the queries sent to the
  store, oldest first.
\<close>

record world =
  app :: app_state
  console :: "js_string list list"
  calls :: "request list"

definition initial_world :: world where
  "initial_world = \<lparr>app = initial_state, console = [], calls = []\<rparr>"

datatype js_error = TypeError

text \<open>\<open>xs[i]\<close> for an integer \<open>i\<close>: \<open>undefined\<close> outside \<open>0 .. length - 1\<close>.\<close>

definition index_at :: "'a option list \<Rightarrow> int \<Rightarrow> 'a option" where
  "index_at xs i = (if 0 \<le> i \<and> i < int (length xs) then xs ! nat i else None)"

text \<open>\<open>data[0]\<close> on the rows of a response.\<close>

definition first_row :: "'a list \<Rightarrow> 'a option" where
  "first_row data = (case data of [] \<Rightarrow> None | r # _ \<Rightarrow> Some r)"

text \<open>\<open>xs.filter((_, i) => i !== index)\<close>.\<close>

definition filter_not_index :: "int \<Rightarrow> 'a list \<Rightarrow> 'a list" where
  "filter_not_index index xs =
     map snd (filter (\<lambda>(i, _). int i \<noteq> index) (enumerate 0 xs))"

section \<open>Task list handlers\<close>

text \<open>
  An \<open>async\<close> handler is modelled from the click to the end of its body: it reads the
  state variables of the render it was created in, sends at most one query, and sets
  state after the answer, with no other event in between.
\<close>

text \<open>
  \<^verbatim>\<open>
  const fetchTodos = async () => {
    const { data, error } = await supabase.from('todos').select('*')
      .order('id', { ascending: false });
    if (error) console.error("Fetch error:", error.message);
    else setTodos(data as Todo[]);
  };
  \<close>
\<close>

definition fetchTodos :: "store \<Rightarrow> world \<Rightarrow> world" where
  "fetchTodos store w =
     (let req = Select (js ''*'') (js ''id'') False;
          w1 = w\<lparr>calls := calls w @ [req]\<rparr>
      in case store req of
           Inl error \<Rightarrow> w1\<lparr>console := console w1 @ [[js ''Fetch error:'', message error]]\<rparr>
         | Inr data \<Rightarrow> w1\<lparr>app := (app w1)\<lparr>todos := map Some data\<rparr>\<rparr>)"

text \<open>
  \<^verbatim>\<open>
  const addTodo = async () => {
    if (input.trim() !== '') {
      const time = new Date().toLocaleString();
      const { data, error } = await supabase.from('todos')
        .insert([{ text: input.trim(), description: description.trim(), completed: false, time }])
        .select();
      if (error) console.error("Insert error:", error.message);
      else { setTodos([...(data as Todo[]), ...todos]); setInput(''); setDescription(''); }
    }
  };
  \<close>
  The locale string of the current date is the parameter \<open>time\<close>.
\<close>

definition addTodo :: "store \<Rightarrow> js_string \<Rightarrow> world \<Rightarrow> world" where
  "addTodo store time w =
     (if trim (input (app w)) \<noteq> [] then
        (let req = Insert [\<lparr>text_n = trim (input (app w)),
                            description_n = trim (description (app w)),
                            completed_n = False, time_n = time\<rparr>];
             w1 = w\<lparr>calls := calls w @ [req]\<rparr>
         in case store req of
              Inl error \<Rightarrow> w1\<lparr>console := console w1 @ [[js ''Insert error:'', message error]]\<rparr>
            | Inr data \<Rightarrow>
                w1\<lparr>app := (app w1)\<lparr>todos := map Some data @ todos (app w),
                                    input := [], description := []\<rparr>\<rparr>)
      else w)"

text \<open>
  \<^verbatim>\<open>
  const toggleComplete = async (index: number) => {
    const todo = todos[index];
    const { data, error } = await supabase.from('todos')
      .update({ completed: !todo.completed }).eq('id', todo.id).select();
    if (error) console.error("Update error:", error.message);
    else { const updatedTodos = [...todos]; updatedTodos[index] = (data as Todo[])[0];
           setTodos(updatedTodos); }
  };
  \<close>
  Reading \<open>todo.completed\<close> of an \<open>undefined\<close> todo throws a TypeError while the query is
  still being built: nothing is sent and no state is set. Past that point \<open>index\<close> is a
  position of the list, so the assignment is a list update.
\<close>

definition toggleComplete :: "store \<Rightarrow> int \<Rightarrow> world \<Rightarrow> js_error + world" where
  "toggleComplete store index w =
     (case index_at (todos (app w)) index of
        None \<Rightarrow> Inl TypeError
      | Some todo \<Rightarrow>
          (let req = Update (\<not> completed_t todo) (id_t todo);
               w1 = w\<lparr>calls := calls w @ [req]\<rparr>
           in case store req of
                Inl error \<Rightarrow>
                  Inr (w1\<lparr>console := console w1 @ [[js ''Update error:'', message error]]\<rparr>)
              | Inr data \<Rightarrow>
                  Inr (w1\<lparr>app := (app w1)\<lparr>todos :=
                               (todos (app w))[nat index := first_row data]\<rparr>\<rparr>)))"

text \<open>
  \<^verbatim>\<open>
  const removeTodo = async (index: number) => {
    const todo = todos[index];
    const { error } = await supabase.from('todos').delete().eq('id', todo.id);
    if (error) console.error("Delete error:", error.message);
    else { const updatedTodos = todos.filter((_, i) => i !== index); setTodos(updatedTodos); }
  };
  \<close>
\<close>

definition removeTodo :: "store \<Rightarrow> int \<Rightarrow> world \<Rightarrow> js_error + world" where
  "removeTodo store index w =
     (case index_at (todos (app w)) index of
        None \<Rightarrow> Inl TypeError
      | Some todo \<Rightarrow>
          (let req = Delete (id_t todo);
               w1 = w\<lparr>calls := calls w @ [req]\<rparr>
           in case store req of
                Inl error \<Rightarrow>
                  Inr (w1\<lparr>console := console w1 @ [[js ''Delete error:'', message error]]\<rparr>)
              | Inr data \<Rightarrow>
                  Inr (w1\<lparr>app := (app w1)\<lparr>todos :=
                               filter_not_index index (todos (app w))\<rparr>\<rparr>)))"

section \<open>Stopwatch\<close>

text \<open>
  The three buttons and the interval callback:
  \<^verbatim>\<open>
  Start:  () => setIsRunning(true)
  Pause:  () => setIsRunning(false)
  Reset:  () => { setIsRunning(false); setStopwatchTime(0); }
  tick:   () => setStopwatchTime(prev => prev + 1)
  \<close>
  The effect keyed on \<open>isRunning\<close> keeps the interval alive exactly while the flag is set,
  so the flag is the stopwatch's state: running or stopped.
\<close>

datatype stopwatch_state = Stopped | Running

definition stopwatch :: "app_state \<Rightarrow> stopwatch_state" where
  "stopwatch s = (if isRunning s then Running else Stopped)"

definition start :: "app_state \<Rightarrow> app_state" where
  "start s = s\<lparr>isRunning := True\<rparr>"

definition pause :: "app_state \<Rightarrow> app_state" where
  "pause s = s\<lparr>isRunning := False\<rparr>"

definition reset :: "app_state \<Rightarrow> app_state" where
  "reset s = (s\<lparr>isRunning := False\<rparr>)\<lparr>stopwatchTime := 0\<rparr>"

definition tick :: "app_state \<Rightarrow> app_state" where
  "tick s = s\<lparr>stopwatchTime := stopwatchTime s + 1\<rparr>"

section \<open>What the store is trusted to do\<close>

text \<open>
  The store's side of insert-returning-row and update-by-id-returning-row, for one
  query and the rows of its answer: an insert answers with the rows it was given, in
  order, each with the submitted columns; an update of the row with identifier \<open>i\<close>
  answers with that one row, carrying the submitted completion flag.
\<close>

definition echoes :: "new_todo \<Rightarrow> todo \<Rightarrow> bool" where
  "echoes n r \<longleftrightarrow>
     text_t r = text_n n \<and> description_t r = description_n n \<and>
     completed_t r = completed_n n \<and> time_t r = time_n n"

definition row_returned :: "request \<Rightarrow> todo list \<Rightarrow> bool" where
  "row_returned req data =
     (case req of
        Insert news \<Rightarrow> list_all2 echoes news data
      | Update c i \<Rightarrow> (case data of [r] \<Rightarrow> id_t r = i \<and> completed_t r = c | _ \<Rightarrow> False)
      | _ \<Rightarrow> True)"

section \<open>Example stores and states\<close>

text \<open>
  A store that holds a table and answers every query from it (new rows get identifiers
  from \<open>next\<close> on), a store that fails every query, and a state with two tasks and a
  title typed in. They serve to run the handlers on concrete inputs.
\<close>

definition table_store :: "int \<Rightarrow> todo list \<Rightarrow> store" where
  "table_store next table req =
     (case req of
        Select cols col asc \<Rightarrow> Inr table
      | Insert news \<Rightarrow>
          Inr (map (\<lambda>(k, n). \<lparr>id_t = next + int k, text_t = text_n n,
                               description_t = description_n n,
                               completed_t = completed_n n, time_t = time_n n\<rparr>)
                 (enumerate 0 news))
      | Update c i \<Rightarrow> Inr (map (\<lambda>r. r\<lparr>completed_t := c\<rparr>) (filter (\<lambda>r. id_t r = i) table))
      | Delete i \<Rightarrow> Inr [])"

definition failing_store :: store where
  "failing_store req = Inl (StoreError (js ''offline''))"

definition task2 :: todo where
  "task2 = \<lparr>id_t = 2, text_t = js ''write report'', description_t = js ''draft'',
            completed_t = False, time_t = js ''t2''\<rparr>"

definition task1 :: todo where
  "task1 = \<lparr>id_t = 1, text_t = js ''buy milk'', description_t = [],
            completed_t = True, time_t = js ''t1''\<rparr>"

definition sample_world :: world where
  "sample_world =
     \<lparr>app = \<lparr>todos = [Some task2, Some task1], input = js '' call bank  '',
              description = js '' before noon'', darkMode = True,
              stopwatchTime = 0, isRunning = False\<rparr>,
      console = [], calls = []\<rparr>"

text \<open>The row submitted from that state at the time \<open>now\<close>, and the row the store makes of it.\<close>

definition new_task :: new_todo where
  "new_task = \<lparr>text_n = js ''call bank'', description_n = js ''before noon'',
               completed_n = False, time_n = js ''now''\<rparr>"

definition task3 :: todo where
  "task3 = \<lparr>id_t = 3, text_t = js ''call bank'', description_t = js ''before noon'',
            completed_t = False, time_t = js ''now''\<rparr>"

text \<open>The example state after its first task was toggled, and with a blank title typed in.\<close>

definition toggled_world :: world where
  "toggled_world =
     sample_world\<lparr>app := (app sample_world)\<lparr>todos := [Some (task2\<lparr>completed_t := True\<rparr>), Some task1]\<rparr>,
                  calls := [Update True 2]\<rparr>"

definition blank_world :: world where
  "blank_world = sample_world\<lparr>app := (app sample_world)\<lparr>input := js '' ''\<rparr>\<rparr>"

section \<open>Facts about strings and lists\<close>

lemma dropWhile_all_iff: "(\<forall>x \<in> set (dropWhile P xs). P x) \<longleftrightarrow> (\<forall>x \<in> set xs. P x)"
proof
  assume a: "\<forall>x \<in> set (dropWhile P xs). P x"
  show "\<forall>x \<in> set xs. P x"
  proof
    fix x assume "x \<in> set xs"
    then have "x \<in> set (takeWhile P xs) \<or> x \<in> set (dropWhile P xs)"
      by (metis UnE set_append takeWhile_dropWhile_id)
    then show "P x" using a by (auto dest: set_takeWhileD)
  qed
next
  assume "\<forall>x \<in> set xs. P x"
  then show "\<forall>x \<in> set (dropWhile P xs). P x"
    by (auto dest: set_dropWhileD)
qed

lemma trim_empty_iff: "trim s = [] \<longleftrightarrow> (\<forall>c \<in> set s. isWhiteSpace c)"
  unfolding trim_def by (simp add: dropWhile_eq_Nil_conv dropWhile_all_iff)

lemma toString_small: "n < 10 \<Longrightarrow> toString n = [digit_char n]"
  by (simp add: toString.simps)

lemma toString_ne: "toString n \<noteq> []"
  by (subst toString.simps) simp

lemma length_toString_large: "10 \<le> n \<Longrightarrow> 2 \<le> length (toString n)"
  using toString_ne [of "n div 10"]
  by (subst toString.simps) (cases "toString (n div 10)"; simp)

lemma toString_two_digits:
  "10 \<le> m \<Longrightarrow> m < 100 \<Longrightarrow> toString m = [digit_char (m div 10), digit_char (m mod 10)]"
  by (subst toString.simps) (simp add: toString_small)

lemma unat_digit_char: "d < 10 \<Longrightarrow> unat (digit_char d) = 48 + d"
proof -
  assume d: "d < 10"
  have "unat (of_nat (48 + d) :: 16 word) = (48 + d) mod 2 ^ LENGTH(16)"
    by (rule unat_of_nat)
  also have "\<dots> = 48 + d" using d by simp
  finally show ?thesis by (simp only: digit_char_def)
qed

lemma digit_value_digit_char: "d < 10 \<Longrightarrow> digit_value (digit_char d) = Some d"
  by (simp add: digit_value_def unat_digit_char)

lemma digits_value_from_append:
  "digits_value_from acc (xs @ ys) =
     (case digits_value_from acc xs of None \<Rightarrow> None | Some a \<Rightarrow> digits_value_from a ys)"
  by (induction xs arbitrary: acc) (auto split: option.splits)

lemma digits_value_from_toString:
  "digits_value_from acc (toString n) = Some (acc * 10 ^ length (toString n) + n)"
proof (induction n arbitrary: acc rule: toString.induct)
  case (1 n)
  show ?case
  proof (cases "n < 10")
    case True
    then show ?thesis by (simp add: toString_small digit_value_digit_char)
  next
    case False
    have t: "toString n = toString (n div 10) @ [digit_char (n mod 10)]"
      using False by (subst toString.simps) simp
    show ?thesis
      using "1.IH" [OF False, of acc]
      by (simp add: t digits_value_from_append digit_value_digit_char algebra_simps)
  qed
qed

lemma digits_value_toString: "digits_value (toString n) = Some n"
  by (simp add: digits_value_def toString_ne digits_value_from_toString)

lemma hd_toString: "0 < n \<Longrightarrow> hd (toString n) \<noteq> digit_char 0"
proof (induction n rule: toString.induct)
  case (1 n)
  show ?case
  proof (cases "n < 10")
    case True
    have "digit_char n \<noteq> digit_char 0"
    proof
      assume "digit_char n = digit_char 0"
      then have "digit_value (digit_char n) = digit_value (digit_char 0)" by simp
      with True "1.prems" show False by (simp add: digit_value_digit_char)
    qed
    with True show ?thesis
      by (simp add: toString_small)
  next
    case False
    have t: "toString n = toString (n div 10) @ [digit_char (n mod 10)]"
      using False by (subst toString.simps) simp
    from False have "0 < n div 10" by simp
    with "1.IH" [OF False] show ?thesis
      by (simp add: t toString_ne)
  qed
qed

lemma js_zero: "js ''0'' = [digit_char 0]"
  by (simp add: js_def digit_char_def)

lemma padStart_2_toString:
  "padStart 2 (js ''0'') (toString m) =
     (if m < 10 then [digit_char 0, digit_char m] else toString m)"
proof (cases "m < 10")
  case True
  then show ?thesis
    by (simp add: padStart_def js_zero toString_small numeral_2_eq_2)
next
  case False
  then have "2 \<le> length (toString m)" by (simp add: length_toString_large)
  with False show ?thesis by (simp add: padStart_def)
qed

lemma padded_field:
  "2 \<le> length (padStart 2 (js ''0'') (toString m))
   \<and> (2 < length (padStart 2 (js ''0'') (toString m)) \<longrightarrow>
        hd (padStart 2 (js ''0'') (toString m)) \<noteq> digit_char 0)
   \<and> digits_value (padStart 2 (js ''0'') (toString m)) = Some m
   \<and> (m < 100 \<longrightarrow> length (padStart 2 (js ''0'') (toString m)) = 2)"
proof (cases "m < 10")
  case True
  then show ?thesis
    by (simp add: padStart_2_toString digits_value_def digit_value_digit_char)
next
  case False
  then have "0 < m" by simp
  then have "hd (toString m) \<noteq> digit_char 0" by (rule hd_toString)
  moreover have "m < 100 \<longrightarrow> length (toString m) = 2"
    using False by (auto simp: toString_two_digits)
  ultimately show ?thesis
    using False by (simp add: padStart_2_toString length_toString_large digits_value_toString)
qed

lemma filter_not_index_aux:
  "k < length xs \<Longrightarrow>
   map snd (filter (\<lambda>(i, _). int i \<noteq> int (n + k)) (enumerate n xs)) = take k xs @ drop (Suc k) xs"
proof (induction xs arbitrary: n k)
  case Nil
  then show ?case by simp
next
  case (Cons x xs)
  show ?case
  proof (cases k)
    case 0
    have "filter (\<lambda>(i, _). int i \<noteq> int n) (enumerate (Suc n) xs) = enumerate (Suc n) xs"
      by (rule filter_True) (auto simp: in_set_enumerate_eq)
    then show ?thesis using 0 by simp
  next
    case (Suc k')
    with Cons.prems have "k' < length xs" by simp
    from Cons.IH [OF this, of "Suc n"] show ?thesis using Suc by simp
  qed
qed

lemma filter_not_index_take_drop:
  "0 \<le> i \<Longrightarrow> i < int (length xs) \<Longrightarrow>
   filter_not_index i xs = take (nat i) xs @ drop (Suc (nat i)) xs"
  using filter_not_index_aux [of "nat i" xs 0] by (simp add: filter_not_index_def)

section \<open>Stopwatch properties\<close>

text \<open>
  C7. For every number of elapsed seconds \<open>n\<close> up to \<open>2^53\<close> (every value the counter can
  hold, and the range on which the functions above compute what the source computes)
  the stopwatch text is a minutes field, a colon and a seconds field. The seconds field
  has exactly two digits and reads \<open>n mod 60\<close>. The minutes field reads \<open>n div 60\<close>, has
  at least two digits, and has more than two only when it needs them (then it has no
  leading zero), so minutes keep growing past 59. In particular 0 gives 00:00, 65
  gives 01:05, 3599 gives 59:59 and 3600 gives 60:00.
\<close>

theorem formatStopwatch_MMSS:
  assumes range: "n \<le> 2 ^ 53"
  shows "(\<exists>mm ss. formatStopwatch n = mm @ js '':'' @ ss
       \<and> 2 \<le> length mm \<and> (2 < length mm \<longrightarrow> hd mm \<noteq> digit_char 0)
       \<and> digits_value mm = Some (n div 60)
       \<and> length ss = 2 \<and> digits_value ss = Some (n mod 60))
   \<and> formatStopwatch 0 = js ''00:00''
   \<and> formatStopwatch 65 = js ''01:05''
   \<and> formatStopwatch 3599 = js ''59:59''
   \<and> formatStopwatch 3600 = js ''60:00''"
proof -
  let ?mm = "padStart 2 (js ''0'') (toString (n div 60))"
  let ?ss = "padStart 2 (js ''0'') (toString (n mod 60))"
  have split: "formatStopwatch n = ?mm @ js '':'' @ ?ss"
    by (simp add: formatStopwatch_def)
  have mm: "2 \<le> length ?mm \<and> (2 < length ?mm \<longrightarrow> hd ?mm \<noteq> digit_char 0)
      \<and> digits_value ?mm = Some (n div 60)"
    using padded_field [of "n div 60"] by simp
  have "n mod 60 < 100" by (rule less_trans [OF mod_less_divisor]) simp_all
  then have ss: "length ?ss = 2 \<and> digits_value ?ss = Some (n mod 60)"
    using padded_field [of "n mod 60"] by simp
  have general: "\<exists>mm ss. formatStopwatch n = mm @ js '':'' @ ss
       \<and> 2 \<le> length mm \<and> (2 < length mm \<longrightarrow> hd mm \<noteq> digit_char 0)
       \<and> digits_value mm = Some (n div 60)
       \<and> length ss = 2 \<and> digits_value ss = Some (n mod 60)"
    using split mm ss by blast
  have e0: "formatStopwatch 0 = js ''00:00''"
    by (simp add: formatStopwatch_def padStart_def js_def toString.simps digit_char_def)
  have e65: "formatStopwatch 65 = js ''01:05''"
    by (simp add: formatStopwatch_def padStart_def js_def toString.simps digit_char_def)
  have e3599: "formatStopwatch 3599 = js ''59:59''"
    by (simp add: formatStopwatch_def padStart_def js_def toString.simps digit_char_def)
  have e3600: "formatStopwatch 3600 = js ''60:00''"
    by (simp add: formatStopwatch_def padStart_def js_def toString.simps digit_char_def)
  from general e0 e65 e3599 e3600 show ?thesis by blast
qed

theorem formatStopwatch_MMSS_witness:
  "(6000 :: nat) \<le> 2 ^ 53
   \<and> formatStopwatch 6000 = js ''100:00''
   \<and> (\<exists>mm ss. formatStopwatch 6000 = mm @ js '':'' @ ss
       \<and> 2 \<le> length mm \<and> (2 < length mm \<longrightarrow> hd mm \<noteq> digit_char 0)
       \<and> digits_value mm = Some 100
       \<and> length ss = 2 \<and> digits_value ss = Some 0)
   \<and> (9007199254740992 :: nat) \<le> 2 ^ 53
   \<and> formatStopwatch 9007199254740992 = js ''150119987579016:32''
   \<and> (\<exists>mm ss. formatStopwatch 9007199254740992 = mm @ js '':'' @ ss
       \<and> 2 \<le> length mm \<and> (2 < length mm \<longrightarrow> hd mm \<noteq> digit_char 0)
       \<and> digits_value mm = Some 150119987579016
       \<and> length ss = 2 \<and> digits_value ss = Some 32)"
proof -
  have r1: "(6000 :: nat) \<le> 2 ^ 53" by simp
  have r2: "(9007199254740992 :: nat) \<le> 2 ^ 53" by simp
  have v1: "formatStopwatch 6000 = js ''100:00''"
    by (simp add: formatStopwatch_def padStart_def js_def toString.simps digit_char_def)
  have v2: "formatStopwatch 9007199254740992 = js ''150119987579016:32''"
    by (simp add: formatStopwatch_def padStart_def js_def toString.simps digit_char_def)
  have q1: "(6000 :: nat) div 60 = 100" "(6000 :: nat) mod 60 = 0" by simp_all
  have q2: "(9007199254740992 :: nat) div 60 = 150119987579016"
      "(9007199254740992 :: nat) mod 60 = 32" by simp_all
  from formatStopwatch_MMSS [OF r1] have g1:
    "\<exists>mm ss. formatStopwatch 6000 = mm @ js '':'' @ ss
       \<and> 2 \<le> length mm \<and> (2 < length mm \<longrightarrow> hd mm \<noteq> digit_char 0)
       \<and> digits_value mm = Some 100
       \<and> length ss = 2 \<and> digits_value ss = Some 0"
    unfolding q1 by blast
  from formatStopwatch_MMSS [OF r2] have g2:
    "\<exists>mm ss. formatStopwatch 9007199254740992 = mm @ js '':'' @ ss
       \<and> 2 \<le> length mm \<and> (2 < length mm \<longrightarrow> hd mm \<noteq> digit_char 0)
       \<and> digits_value mm = Some 150119987579016
       \<and> length ss = 2 \<and> digits_value ss = Some 32"
    unfolding q2 by blast
  from r1 r2 v1 v2 g1 g2 show ?thesis by blast
qed

text \<open>
  C8. Whatever the elapsed value and whether the stopwatch runs or not, Reset leaves
  the elapsed seconds at 0 and the stopwatch stopped.
\<close>

theorem reset_stopped:
  "stopwatchTime (reset s) = 0 \<and> isRunning (reset s) = False \<and> stopwatch (reset s) = Stopped"
  by (simp add: reset_def stopwatch_def)

section \<open>Facts about the handlers\<close>

lemma index_at_Some:
  "index_at xs i = Some t \<Longrightarrow> 0 \<le> i \<and> i < int (length xs) \<and> xs ! nat i = Some t"
  by (auto simp: index_at_def split: if_splits)

lemma toggleComplete_undefined:
  "index_at (todos (app w)) i = None \<Longrightarrow> toggleComplete store i w = Inl TypeError"
  by (simp add: toggleComplete_def)

lemma toggleComplete_proceeds:
  "index_at (todos (app w)) i = Some t \<Longrightarrow>
   \<exists>w'. toggleComplete store i w = Inr w'
       \<and> calls w' = calls w @ [Update (\<not> completed_t t) (id_t t)]"
  by (cases "store (Update (\<not> completed_t t) (id_t t))")
     (simp_all add: toggleComplete_def Let_def)

lemma removeTodo_undefined:
  "index_at (todos (app w)) i = None \<Longrightarrow> removeTodo store i w = Inl TypeError"
  by (simp add: removeTodo_def)

lemma removeTodo_proceeds:
  "index_at (todos (app w)) i = Some t \<Longrightarrow>
   \<exists>w'. removeTodo store i w = Inr w' \<and> calls w' = calls w @ [Delete (id_t t)]"
  by (cases "store (Delete (id_t t))") (simp_all add: removeTodo_def Let_def)

lemma toggleComplete_success:
  assumes t: "index_at (todos (app w)) i = Some t"
    and run: "toggleComplete store i w = Inr w'"
    and sent: "calls w' = calls w @ [req]"
    and ok: "store req = Inr data"
    and echo: "row_returned req data"
  shows "\<exists>row. data = [row] \<and> req = Update (\<not> completed_t t) (id_t t)
      \<and> completed_t row = (\<not> completed_t t) \<and> id_t row = id_t t
      \<and> todos (app w') = (todos (app w))[nat i := Some row]"
proof -
  have req: "req = Update (\<not> completed_t t) (id_t t)"
    using t run sent by (auto simp: toggleComplete_def Let_def split: sum.splits)
  with echo obtain row where data: "data = [row]"
      and row: "id_t row = id_t t" "completed_t row = (\<not> completed_t t)"
    by (auto simp: row_returned_def split: list.splits)
  have "todos (app w') = (todos (app w))[nat i := Some row]"
    using t run ok req data by (auto simp: toggleComplete_def Let_def first_row_def)
  with req data row show ?thesis by simp
qed

section \<open>Task list properties\<close>

text \<open>
  C1. When the title is not empty after trimming and the store answers the insert of
  the trimmed title, the trimmed description, \<open>completed: false\<close> and the time with the
  inserted row, Create sends exactly that one insert and puts exactly that one row in
  front of the existing list; the row's title is the trimmed title input, its
  completion flag is false and its description is the trimmed description input.
\<close>

theorem addTodo_prepends_returned_row:
  assumes title: "trim (input (app w)) \<noteq> []"
    and ok: "store (Insert [\<lparr>text_n = trim (input (app w)),
                             description_n = trim (description (app w)),
                             completed_n = False, time_n = time\<rparr>]) = Inr data"
    and echo: "row_returned (Insert [\<lparr>text_n = trim (input (app w)),
                                      description_n = trim (description (app w)),
                                      completed_n = False, time_n = time\<rparr>]) data"
  shows "\<exists>row. data = [row]
     \<and> calls (addTodo store time w)
         = calls w @ [Insert [\<lparr>text_n = trim (input (app w)),
                               description_n = trim (description (app w)),
                               completed_n = False, time_n = time\<rparr>]]
     \<and> todos (app (addTodo store time w)) = Some row # todos (app w)
     \<and> length (todos (app (addTodo store time w))) = Suc (length (todos (app w)))
     \<and> text_t row = trim (input (app w))
     \<and> completed_t row = False
     \<and> description_t row = trim (description (app w))"
proof -
  let ?new = "\<lparr>text_n = trim (input (app w)), description_n = trim (description (app w)),
               completed_n = False, time_n = time\<rparr>"
  from echo have "list_all2 echoes [?new] data"
    by (simp add: row_returned_def)
  then obtain row where data: "data = [row]" and row: "echoes ?new row"
    by (auto simp: list_all2_Cons1)
  have sent: "calls (addTodo store time w) = calls w @ [Insert [?new]]"
    using title ok by (simp add: addTodo_def Let_def)
  have front: "todos (app (addTodo store time w)) = Some row # todos (app w)"
    using title ok data by (simp add: addTodo_def Let_def)
  from data row sent front show ?thesis by (simp add: echoes_def)
qed

theorem addTodo_prepends_returned_row_witness:
  "trim (input (app sample_world)) \<noteq> []
   \<and> trim (input (app sample_world)) = js ''call bank''
   \<and> trim (description (app sample_world)) = js ''before noon''
   \<and> table_store 3 [task2, task1] (Insert [new_task]) = Inr [task3]
   \<and> row_returned (Insert [new_task]) [task3]
   \<and> calls (addTodo (table_store 3 [task2, task1]) (js ''now'') sample_world)
       = [Insert [new_task]]
   \<and> todos (app (addTodo (table_store 3 [task2, task1]) (js ''now'') sample_world))
       = [Some task3, Some task2, Some task1]
   \<and> text_t task3 = js ''call bank'' \<and> completed_t task3 = False
   \<and> description_t task3 = js ''before noon''"
proof -
  have tr: "trim (input (app sample_world)) = js ''call bank''"
       "trim (description (app sample_world)) = js ''before noon''"
    by (simp_all add: sample_world_def trim_def js_def isWhiteSpace_def)
  have new: "\<lparr>text_n = trim (input (app sample_world)),
              description_n = trim (description (app sample_world)),
              completed_n = False, time_n = js ''now''\<rparr> = new_task"
    by (simp add: tr new_task_def)
  have h1: "trim (input (app sample_world)) \<noteq> []"
    by (simp add: tr) (simp add: js_def)
  have h2: "table_store 3 [task2, task1] (Insert [new_task]) = Inr [task3]"
    by (simp add: table_store_def new_task_def task3_def)
  have h3: "row_returned (Insert [new_task]) [task3]"
    by (simp add: row_returned_def echoes_def new_task_def task3_def)
  have before: "todos (app sample_world) = [Some task2, Some task1]" "calls sample_world = []"
    by (simp_all add: sample_world_def)
  have fields: "text_t task3 = js ''call bank'' \<and> completed_t task3 = False
      \<and> description_t task3 = js ''before noon''"
    by (simp add: task3_def)
  from addTodo_prepends_returned_row [of sample_world "table_store 3 [task2, task1]"
      "js ''now''" "[task3]", unfolded new, OF h1 h2 h3] before
  have "calls (addTodo (table_store 3 [task2, task1]) (js ''now'') sample_world)
       = [Insert [new_task]]
     \<and> todos (app (addTodo (table_store 3 [task2, task1]) (js ''now'') sample_world))
       = [Some task3, Some task2, Some task1]"
    by auto
  with h1 tr h2 h3 fields show ?thesis by simp
qed

text \<open>
  C2. When the one query a handler sent is answered with an error, Create, Toggle and
  Delete leave the whole component state (task list, title and description inputs
  included) as it was and write one line with the error's message to the console.
\<close>

theorem store_error_leaves_state:
  "(calls (addTodo store time w) = calls w @ [reqC] \<and> store reqC = Inl eC \<longrightarrow>
      app (addTodo store time w) = app w
      \<and> console (addTodo store time w) = console w @ [[js ''Insert error:'', message eC]])
   \<and> (toggleComplete store i w = Inr wT \<and> calls wT = calls w @ [reqT] \<and> store reqT = Inl eT \<longrightarrow>
      app wT = app w
      \<and> console wT = console w @ [[js ''Update error:'', message eT]])
   \<and> (removeTodo store j w = Inr wD \<and> calls wD = calls w @ [reqD] \<and> store reqD = Inl eD \<longrightarrow>
      app wD = app w
      \<and> console wD = console w @ [[js ''Delete error:'', message eD]])"
proof (intro conjI impI)
  assume a: "calls (addTodo store time w) = calls w @ [reqC] \<and> store reqC = Inl eC"
  then have t: "trim (input (app w)) \<noteq> []"
    by (auto simp: addTodo_def)
  with a have r: "reqC = Insert [\<lparr>text_n = trim (input (app w)),
      description_n = trim (description (app w)), completed_n = False, time_n = time\<rparr>]"
    by (auto simp: addTodo_def Let_def split: sum.splits)
  from a t r show "app (addTodo store time w) = app w"
    by (simp add: addTodo_def Let_def)
  from a t r show "console (addTodo store time w) = console w @ [[js ''Insert error:'', message eC]]"
    by (simp add: addTodo_def Let_def)
next
  assume a: "toggleComplete store i w = Inr wT \<and> calls wT = calls w @ [reqT] \<and> store reqT = Inl eT"
  then obtain t where t: "index_at (todos (app w)) i = Some t"
    by (auto simp: toggleComplete_def split: option.splits)
  with a have r: "reqT = Update (\<not> completed_t t) (id_t t)"
    by (auto simp: toggleComplete_def Let_def split: sum.splits)
  from a t r show "app wT = app w"
    by (auto simp: toggleComplete_def Let_def)
  from a t r show "console wT = console w @ [[js ''Update error:'', message eT]]"
    by (auto simp: toggleComplete_def Let_def)
next
  assume a: "removeTodo store j w = Inr wD \<and> calls wD = calls w @ [reqD] \<and> store reqD = Inl eD"
  then obtain t where t: "index_at (todos (app w)) j = Some t"
    by (auto simp: removeTodo_def split: option.splits)
  with a have r: "reqD = Delete (id_t t)"
    by (auto simp: removeTodo_def Let_def split: sum.splits)
  from a t r show "app wD = app w"
    by (auto simp: removeTodo_def Let_def)
  from a t r show "console wD = console w @ [[js ''Delete error:'', message eD]]"
    by (auto simp: removeTodo_def Let_def)
qed

theorem store_error_leaves_state_witness:
  "calls (addTodo failing_store (js ''now'') sample_world) = calls sample_world @ [Insert [new_task]]
   \<and> failing_store (Insert [new_task]) = Inl (StoreError (js ''offline''))
   \<and> app (addTodo failing_store (js ''now'') sample_world) = app sample_world
   \<and> console (addTodo failing_store (js ''now'') sample_world)
       = [[js ''Insert error:'', js ''offline'']]
   \<and> toggleComplete failing_store 0 sample_world
       = Inr (sample_world\<lparr>console := [[js ''Update error:'', js ''offline'']],
                           calls := [Update True 2]\<rparr>)
   \<and> failing_store (Update True 2) = Inl (StoreError (js ''offline''))
   \<and> removeTodo failing_store 1 sample_world
       = Inr (sample_world\<lparr>console := [[js ''Delete error:'', js ''offline'']],
                           calls := [Delete 1]\<rparr>)
   \<and> failing_store (Delete 1) = Inl (StoreError (js ''offline''))"
proof -
  let ?wT = "sample_world\<lparr>console := [[js ''Update error:'', js ''offline'']],
                          calls := [Update True 2]\<rparr>"
  let ?wD = "sample_world\<lparr>console := [[js ''Delete error:'', js ''offline'']],
                          calls := [Delete 1]\<rparr>"
  have tr: "trim (js '' call bank  '') = js ''call bank''"
       "trim (js '' before noon'') = js ''before noon''"
    by (simp_all add: trim_def js_def isWhiteSpace_def)
  have ne: "js ''call bank'' \<noteq> []" by (simp add: js_def)
  have c1: "calls (addTodo failing_store (js ''now'') sample_world)
      = calls sample_world @ [Insert [new_task]]"
    by (simp add: addTodo_def Let_def sample_world_def tr ne new_task_def failing_store_def)
  have f: "failing_store (Insert [new_task]) = Inl (StoreError (js ''offline''))"
      "failing_store (Update True 2) = Inl (StoreError (js ''offline''))"
      "failing_store (Delete 1) = Inl (StoreError (js ''offline''))"
    by (simp_all add: failing_store_def)
  have t1: "toggleComplete failing_store 0 sample_world = Inr ?wT"
    by (simp add: toggleComplete_def index_at_def Let_def sample_world_def task2_def failing_store_def)
  have t2: "calls ?wT = calls sample_world @ [Update True 2]"
    by (simp add: sample_world_def)
  have d1: "removeTodo failing_store 1 sample_world = Inr ?wD"
    by (simp add: removeTodo_def index_at_def Let_def sample_world_def task1_def failing_store_def)
  have d2: "calls ?wD = calls sample_world @ [Delete 1]"
    by (simp add: sample_world_def)
  have empty: "console sample_world = []" by (simp add: sample_world_def)
  from store_error_leaves_state [where store = failing_store and time = "js ''now''"
      and w = sample_world and reqC = "Insert [new_task]" and eC = "StoreError (js ''offline'')"
      and i = 0 and wT = ?wT and reqT = "Update True 2" and eT = "StoreError (js ''offline'')"
      and j = 1 and wD = ?wD and reqD = "Delete 1" and eD = "StoreError (js ''offline'')"]
    c1 f t1 t2 d1 d2 empty
  show ?thesis by simp
qed

text \<open>
  C3. At a position that holds a record, two Toggles in a row, each sent and each
  answered by the store with the updated row, flip the completion flag of the record
  at that position and then bring it back to its original value.
\<close>

theorem toggleComplete_twice:
  assumes t: "index_at (todos (app w)) i = Some t"
    and run1: "toggleComplete store1 i w = Inr w1"
    and sent1: "calls w1 = calls w @ [req1]"
    and ok1: "store1 req1 = Inr data1"
    and echo1: "row_returned req1 data1"
    and run2: "toggleComplete store2 i w1 = Inr w2"
    and sent2: "calls w2 = calls w1 @ [req2]"
    and ok2: "store2 req2 = Inr data2"
    and echo2: "row_returned req2 data2"
  shows "\<exists>t1 t2. index_at (todos (app w1)) i = Some t1 \<and> completed_t t1 = (\<not> completed_t t)
      \<and> index_at (todos (app w2)) i = Some t2 \<and> completed_t t2 = completed_t t"
proof -
  from t have i: "0 \<le> i" "i < int (length (todos (app w)))"
    by (auto dest: index_at_Some)
  from toggleComplete_success [OF t run1 sent1 ok1 echo1] obtain t1
    where flip1: "completed_t t1 = (\<not> completed_t t)"
      and upd1: "todos (app w1) = (todos (app w))[nat i := Some t1]"
    by blast
  have at1: "index_at (todos (app w1)) i = Some t1"
    using i upd1 by (simp add: index_at_def)
  from toggleComplete_success [OF at1 run2 sent2 ok2 echo2] obtain t2
    where flip2: "completed_t t2 = (\<not> completed_t t1)"
      and upd2: "todos (app w2) = (todos (app w1))[nat i := Some t2]"
    by blast
  have at2: "index_at (todos (app w2)) i = Some t2"
    using i upd1 upd2 by (simp add: index_at_def)
  from at1 flip1 at2 flip2 show ?thesis by simp
qed

theorem toggleComplete_twice_witness:
  "index_at (todos (app sample_world)) 0 = Some task2
   \<and> toggleComplete (table_store 3 [task2, task1]) 0 sample_world = Inr toggled_world
   \<and> calls toggled_world = calls sample_world @ [Update True 2]
   \<and> table_store 3 [task2, task1] (Update True 2) = Inr [task2\<lparr>completed_t := True\<rparr>]
   \<and> row_returned (Update True 2) [task2\<lparr>completed_t := True\<rparr>]
   \<and> toggleComplete (table_store 3 [task2\<lparr>completed_t := True\<rparr>, task1]) 0 toggled_world
       = Inr (sample_world\<lparr>calls := [Update True 2, Update False 2]\<rparr>)
   \<and> calls (sample_world\<lparr>calls := [Update True 2, Update False 2]\<rparr>)
       = calls toggled_world @ [Update False 2]
   \<and> table_store 3 [task2\<lparr>completed_t := True\<rparr>, task1] (Update False 2) = Inr [task2]
   \<and> row_returned (Update False 2) [task2]
   \<and> (\<exists>t1 t2. index_at (todos (app toggled_world)) 0 = Some t1 \<and> completed_t t1 = True
        \<and> index_at (todos (app (sample_world\<lparr>calls := [Update True 2, Update False 2]\<rparr>))) 0
            = Some t2
        \<and> completed_t t2 = False)"
proof -
  let ?w2 = "sample_world\<lparr>calls := [Update True 2, Update False 2]\<rparr>"
  have h0: "index_at (todos (app sample_world)) 0 = Some task2"
    by (simp add: index_at_def sample_world_def)
  have h3: "table_store 3 [task2, task1] (Update True 2) = Inr [task2\<lparr>completed_t := True\<rparr>]"
    by (simp add: table_store_def task2_def task1_def)
  have h1: "toggleComplete (table_store 3 [task2, task1]) 0 sample_world = Inr toggled_world"
    by (simp add: toggleComplete_def Let_def index_at_def first_row_def table_store_def
        toggled_world_def sample_world_def task2_def task1_def)
  have h2: "calls toggled_world = calls sample_world @ [Update True 2]"
    by (simp add: toggled_world_def sample_world_def)
  have h4: "row_returned (Update True 2) [task2\<lparr>completed_t := True\<rparr>]"
    by (simp add: row_returned_def task2_def)
  have k0: "index_at (todos (app toggled_world)) 0 = Some (task2\<lparr>completed_t := True\<rparr>)"
    by (simp add: index_at_def toggled_world_def)
  have k3: "table_store 3 [task2\<lparr>completed_t := True\<rparr>, task1] (Update False 2) = Inr [task2]"
    by (simp add: table_store_def task2_def task1_def)
  have k1: "toggleComplete (table_store 3 [task2\<lparr>completed_t := True\<rparr>, task1]) 0 toggled_world
      = Inr ?w2"
    by (simp add: toggleComplete_def Let_def index_at_def first_row_def table_store_def
        toggled_world_def sample_world_def task2_def task1_def)
  have k2: "calls ?w2 = calls toggled_world @ [Update False 2]"
    by (simp add: toggled_world_def)
  have k4: "row_returned (Update False 2) [task2]"
    by (simp add: row_returned_def task2_def)
  have flag: "completed_t task2 = False" by (simp add: task2_def)
  from toggleComplete_twice [OF h0 h1 h2 h3 h4 k1 k2 k3 k4] flag
  have "\<exists>t1 t2. index_at (todos (app toggled_world)) 0 = Some t1 \<and> completed_t t1 = True
        \<and> index_at (todos (app ?w2)) 0 = Some t2 \<and> completed_t t2 = False"
    by simp
  with h0 h1 h2 h3 h4 k1 k2 k3 k4 show ?thesis by blast
qed

text \<open>
  C4. At a position that holds a record, when the store answers the update of that
  record's identifier to the flipped completion flag with the updated row, Toggle
  returns normally, sends exactly that one update, and puts the returned row (same
  identifier, flag flipped) at the position; the list keeps its length and every
  other position keeps its record.
\<close>

theorem toggleComplete_replaces_one:
  assumes t: "index_at (todos (app w)) i = Some t"
    and ok: "store (Update (\<not> completed_t t) (id_t t)) = Inr data"
    and echo: "row_returned (Update (\<not> completed_t t) (id_t t)) data"
  shows "\<exists>row w'. data = [row]
      \<and> toggleComplete store i w = Inr w'
      \<and> calls w' = calls w @ [Update (\<not> completed_t t) (id_t t)]
      \<and> id_t row = id_t t
      \<and> completed_t row = (\<not> completed_t t)
      \<and> todos (app w') = (todos (app w))[nat i := Some row]
      \<and> index_at (todos (app w')) i = Some row
      \<and> length (todos (app w')) = length (todos (app w))
      \<and> (\<forall>j. j \<noteq> i \<longrightarrow> index_at (todos (app w')) j = index_at (todos (app w)) j)"
proof -
  from toggleComplete_proceeds [OF t, of store] obtain w'
    where run: "toggleComplete store i w = Inr w'"
      and sent: "calls w' = calls w @ [Update (\<not> completed_t t) (id_t t)]"
    by blast
  from toggleComplete_success [OF t run sent ok echo] obtain row where data: "data = [row]"
    and ident: "id_t row = id_t t"
    and flip: "completed_t row = (\<not> completed_t t)"
    and upd: "todos (app w') = (todos (app w))[nat i := Some row]"
    by blast
  from t have i: "0 \<le> i" "i < int (length (todos (app w)))"
    by (auto dest: index_at_Some)
  have at_i: "index_at (todos (app w')) i = Some row"
    using i upd by (simp add: index_at_def)
  have len: "length (todos (app w')) = length (todos (app w))"
    using upd by simp
  have others: "\<forall>j. j \<noteq> i \<longrightarrow> index_at (todos (app w')) j = index_at (todos (app w)) j"
    using i upd by (auto simp: index_at_def nth_list_update)
  from data run sent ident flip upd at_i len others show ?thesis by blast
qed

theorem toggleComplete_replaces_one_witness:
  "index_at (todos (app sample_world)) 0 = Some task2
   \<and> table_store 3 [task2, task1] (Update (\<not> completed_t task2) (id_t task2))
       = Inr [task2\<lparr>completed_t := True\<rparr>]
   \<and> row_returned (Update (\<not> completed_t task2) (id_t task2)) [task2\<lparr>completed_t := True\<rparr>]
   \<and> toggleComplete (table_store 3 [task2, task1]) 0 sample_world = Inr toggled_world
   \<and> calls toggled_world = [Update True 2]
   \<and> todos (app toggled_world) = [Some (task2\<lparr>completed_t := True\<rparr>), Some task1]
   \<and> todos (app sample_world) = [Some task2, Some task1]"
proof -
  have h0: "index_at (todos (app sample_world)) 0 = Some task2"
    by (simp add: index_at_def sample_world_def)
  have h1: "table_store 3 [task2, task1] (Update (\<not> completed_t task2) (id_t task2))
      = Inr [task2\<lparr>completed_t := True\<rparr>]"
    by (simp add: table_store_def task2_def task1_def)
  have h2: "row_returned (Update (\<not> completed_t task2) (id_t task2)) [task2\<lparr>completed_t := True\<rparr>]"
    by (simp add: row_returned_def task2_def)
  have before: "todos (app sample_world) = [Some task2, Some task1]" "calls sample_world = []"
    by (simp_all add: sample_world_def)
  have req: "Update (\<not> completed_t task2) (id_t task2) = Update True 2"
    by (simp add: task2_def)
  from toggleComplete_replaces_one [where store = "table_store 3 [task2, task1]"
      and w = sample_world and i = 0 and t = task2
      and data = "[task2\<lparr>completed_t := True\<rparr>]", OF h0 h1 h2] obtain w'
    where run: "toggleComplete (table_store 3 [task2, task1]) 0 sample_world = Inr w'"
      and sent: "calls w' = [Update True 2]"
      and upd: "todos (app w') = [Some (task2\<lparr>completed_t := True\<rparr>), Some task1]"
    using before req by auto
  have "toggleComplete (table_store 3 [task2, task1]) 0 sample_world = Inr toggled_world"
    by (simp add: toggleComplete_def Let_def index_at_def first_row_def table_store_def
        toggled_world_def sample_world_def task2_def task1_def)
  with run have same: "w' = toggled_world" by simp
  from h0 h1 h2 run sent upd before show ?thesis unfolding same by simp
qed

text \<open>
  C5. At a position that holds a record, when the store answers the delete of that
  record's identifier without error, Delete returns normally, sends exactly that one
  delete, and removes the record at that position and nothing else: the new list is
  the old one without position \<open>i\<close>, the old list is the new one with the record put
  back at \<open>i\<close>, and the length drops by one.
\<close>

theorem removeTodo_removes_one:
  assumes t: "index_at (todos (app w)) i = Some t"
    and ok: "store (Delete (id_t t)) = Inr data"
  shows "\<exists>w'. removeTodo store i w = Inr w'
     \<and> calls w' = calls w @ [Delete (id_t t)]
     \<and> todos (app w') = take (nat i) (todos (app w)) @ drop (Suc (nat i)) (todos (app w))
     \<and> todos (app w) = take (nat i) (todos (app w')) @ Some t # drop (nat i) (todos (app w'))
     \<and> Suc (length (todos (app w'))) = length (todos (app w))"
proof -
  from removeTodo_proceeds [OF t, of store] obtain w'
    where run: "removeTodo store i w = Inr w'"
      and sent: "calls w' = calls w @ [Delete (id_t t)]"
    by blast
  from t have i: "0 \<le> i" "i < int (length (todos (app w)))" and el: "todos (app w) ! nat i = Some t"
    by (auto dest: index_at_Some)
  then have n: "nat i < length (todos (app w))" by simp
  have "todos (app w') = filter_not_index i (todos (app w))"
    using t run ok by (auto simp: removeTodo_def Let_def)
  then have upd: "todos (app w') = take (nat i) (todos (app w)) @ drop (Suc (nat i)) (todos (app w))"
    using i by (simp add: filter_not_index_take_drop)
  have restore: "todos (app w) = take (nat i) (todos (app w')) @ Some t # drop (nat i) (todos (app w'))"
  proof -
    have a: "take (nat i) (todos (app w')) = take (nat i) (todos (app w))"
      using n by (simp add: upd min_def)
    have b: "drop (nat i) (todos (app w')) = drop (Suc (nat i)) (todos (app w))"
      using n by (simp add: upd min_def)
    from id_take_nth_drop [OF n] el a b show ?thesis by simp
  qed
  have len: "Suc (length (todos (app w'))) = length (todos (app w))"
    using n by (simp add: upd)
  from run sent upd restore len show ?thesis by blast
qed

theorem removeTodo_removes_one_witness:
  "index_at (todos (app sample_world)) 1 = Some task1
   \<and> table_store 3 [task2, task1] (Delete (id_t task1)) = Inr []
   \<and> todos (app sample_world) = [Some task2, Some task1]
   \<and> (\<exists>w'. removeTodo (table_store 3 [task2, task1]) 1 sample_world = Inr w'
         \<and> calls w' = [Delete 1]
         \<and> todos (app w') = [Some task2])"
proof -
  have h0: "index_at (todos (app sample_world)) 1 = Some task1"
    by (simp add: index_at_def sample_world_def)
  have h1: "table_store 3 [task2, task1] (Delete (id_t task1)) = Inr []"
    by (simp add: table_store_def)
  have before: "todos (app sample_world) = [Some task2, Some task1]" "calls sample_world = []"
    by (simp_all add: sample_world_def)
  have idt: "id_t task1 = 1" by (simp add: task1_def)
  from removeTodo_removes_one [where store = "table_store 3 [task2, task1]"
      and w = sample_world and i = 1 and t = task1 and data = "[]", OF h0 h1] before idt
  have "\<exists>w'. removeTodo (table_store 3 [task2, task1]) 1 sample_world = Inr w'
         \<and> calls w' = [Delete 1]
         \<and> todos (app w') = [Some task2]"
    by auto
  with h0 h1 before show ?thesis by simp
qed

text \<open>
  C6. A title is empty after trimming exactly when it is empty or all white space;
  for such a title Create returns the state it was given: no query is sent and the
  task list is unchanged.
\<close>

theorem addTodo_blank_title:
  "(trim (input (app w)) = [] \<longleftrightarrow> (\<forall>c \<in> set (input (app w)). isWhiteSpace c))
   \<and> (trim (input (app w)) = [] \<longrightarrow>
        addTodo store time w = w
        \<and> calls (addTodo store time w) = calls w
        \<and> todos (app (addTodo store time w)) = todos (app w))"
  by (simp add: trim_empty_iff addTodo_def)

theorem addTodo_blank_title_witness:
  "trim (input (app blank_world)) = []
   \<and> input (app blank_world) = js '' ''
   \<and> list_all isWhiteSpace (input (app blank_world))
   \<and> addTodo (table_store 3 [task2, task1]) (js ''now'') blank_world = blank_world
   \<and> calls (addTodo (table_store 3 [task2, task1]) (js ''now'') blank_world) = []"
proof -
  have h: "trim (input (app blank_world)) = []"
    by (simp add: blank_world_def trim_def js_def isWhiteSpace_def)
  have c: "calls blank_world = []"
    by (simp add: blank_world_def sample_world_def)
  have i: "input (app blank_world) = js '' ''"
    by (simp add: blank_world_def)
  from addTodo_blank_title [of blank_world "table_store 3 [task2, task1]" "js ''now''"] h c i
  show ?thesis by (simp add: list_all_iff)
qed

text \<open>
  C9. Load sends exactly one query, for all columns ordered by \<open>id\<close> with
  \<open>ascending: false\<close>. When the store answers with rows, the local list becomes
  exactly those rows in the order received and nothing is logged. When the store
  answers with an error, the component state is unchanged and one line with the
  error's message is logged; from the initial state the list is therefore left empty.
\<close>

theorem fetchTodos_load:
  "calls (fetchTodos store w) = calls w @ [Select (js ''*'') (js ''id'') False]
   \<and> (store (Select (js ''*'') (js ''id'') False) = Inr data \<longrightarrow>
        todos (app (fetchTodos store w)) = map Some data
        \<and> console (fetchTodos store w) = console w)
   \<and> (store (Select (js ''*'') (js ''id'') False) = Inl e \<longrightarrow>
        app (fetchTodos store w) = app w
        \<and> console (fetchTodos store w) = console w @ [[js ''Fetch error:'', message e]]
        \<and> todos (app (fetchTodos store initial_world)) = [])"
  by (auto simp: fetchTodos_def Let_def initial_world_def initial_state_def split: sum.splits)

theorem fetchTodos_load_witness:
  "table_store 3 [task2, task1] (Select (js ''*'') (js ''id'') False) = Inr [task2, task1]
   \<and> todos (app (fetchTodos (table_store 3 [task2, task1]) initial_world))
       = [Some task2, Some task1]
   \<and> calls (fetchTodos (table_store 3 [task2, task1]) initial_world)
       = [Select (js ''*'') (js ''id'') False]
   \<and> failing_store (Select (js ''*'') (js ''id'') False) = Inl (StoreError (js ''offline''))
   \<and> todos (app (fetchTodos failing_store initial_world)) = []
   \<and> console (fetchTodos failing_store initial_world) = [[js ''Fetch error:'', js ''offline'']]"
proof -
  have s: "table_store 3 [task2, task1] (Select (js ''*'') (js ''id'') False) = Inr [task2, task1]"
    by (simp add: table_store_def)
  have f: "failing_store (Select (js ''*'') (js ''id'') False) = Inl (StoreError (js ''offline''))"
    by (simp add: failing_store_def)
  have i: "calls initial_world = []" "console initial_world = []"
      "todos (app initial_world) = []"
    by (simp_all add: initial_world_def initial_state_def)
  from fetchTodos_load [of "table_store 3 [task2, task1]" initial_world "[task2, task1]"]
    fetchTodos_load [of failing_store initial_world _ "StoreError (js ''offline'')"] s f i
  show ?thesis by simp
qed

text \<open>
  C10. Toggle and Delete look the record up with no bounds check. On a list of records
  the lookup finds one exactly when \<open>0 \<le> index < length\<close>, and exactly then each
  handler goes on to send its query; for any other index the lookup gives \<open>undefined\<close>
  and the handler fails with a TypeError.
\<close>

theorem index_precondition:
  assumes "None \<notin> set (todos (app w))"
  shows "((0 \<le> i \<and> i < int (length (todos (app w)))) \<longleftrightarrow> (\<exists>t. index_at (todos (app w)) i = Some t))
    \<and> ((0 \<le> i \<and> i < int (length (todos (app w)))) \<longleftrightarrow>
         (\<exists>w'. toggleComplete store i w = Inr w' \<and> length (calls w') = Suc (length (calls w))))
    \<and> ((0 \<le> i \<and> i < int (length (todos (app w)))) \<longleftrightarrow>
         (\<exists>w'. removeTodo store i w = Inr w' \<and> length (calls w') = Suc (length (calls w))))
    \<and> (\<not> (0 \<le> i \<and> i < int (length (todos (app w)))) \<longrightarrow>
         toggleComplete store i w = Inl TypeError \<and> removeTodo store i w = Inl TypeError
         \<and> index_at (todos (app w)) i = None)"
proof -
  let ?inb = "0 \<le> i \<and> i < int (length (todos (app w)))"
  have look: "?inb \<longleftrightarrow> (\<exists>t. index_at (todos (app w)) i = Some t)"
  proof
    assume b: ?inb
    then have "nat i < length (todos (app w))" by linarith
    then have "todos (app w) ! nat i \<in> set (todos (app w))" by (rule nth_mem)
    with assms have "todos (app w) ! nat i \<noteq> None" by metis
    with b show "\<exists>t. index_at (todos (app w)) i = Some t" by (simp add: index_at_def)
  next
    assume "\<exists>t. index_at (todos (app w)) i = Some t"
    then show ?inb by (auto dest: index_at_Some)
  qed
  have out: "\<not> ?inb \<longrightarrow> index_at (todos (app w)) i = None"
    by (simp add: index_at_def)
  have tog: "?inb \<longleftrightarrow>
      (\<exists>w'. toggleComplete store i w = Inr w' \<and> length (calls w') = Suc (length (calls w)))"
  proof
    assume ?inb
    with look obtain t where "index_at (todos (app w)) i = Some t" by blast
    from toggleComplete_proceeds [OF this, of store] show
      "\<exists>w'. toggleComplete store i w = Inr w' \<and> length (calls w') = Suc (length (calls w))"
      by auto
  next
    assume r: "\<exists>w'. toggleComplete store i w = Inr w' \<and> length (calls w') = Suc (length (calls w))"
    show ?inb
    proof (rule ccontr)
      assume "\<not> ?inb"
      with out have "toggleComplete store i w = Inl TypeError"
        by (simp add: toggleComplete_undefined)
      with r show False by simp
    qed
  qed
  have rem: "?inb \<longleftrightarrow>
      (\<exists>w'. removeTodo store i w = Inr w' \<and> length (calls w') = Suc (length (calls w)))"
  proof
    assume ?inb
    with look obtain t where "index_at (todos (app w)) i = Some t" by blast
    from removeTodo_proceeds [OF this, of store] show
      "\<exists>w'. removeTodo store i w = Inr w' \<and> length (calls w') = Suc (length (calls w))"
      by auto
  next
    assume r: "\<exists>w'. removeTodo store i w = Inr w' \<and> length (calls w') = Suc (length (calls w))"
    show ?inb
    proof (rule ccontr)
      assume "\<not> ?inb"
      with out have "removeTodo store i w = Inl TypeError"
        by (simp add: removeTodo_undefined)
      with r show False by simp
    qed
  qed
  from out have fail: "\<not> ?inb \<longrightarrow>
      toggleComplete store i w = Inl TypeError \<and> removeTodo store i w = Inl TypeError
      \<and> index_at (todos (app w)) i = None"
    by (simp add: toggleComplete_undefined removeTodo_undefined)
  from look tog rem fail show ?thesis by blast
qed

theorem index_precondition_witness:
  "None \<notin> set (todos (app sample_world))
   \<and> length (todos (app sample_world)) = 2
   \<and> (\<exists>t. index_at (todos (app sample_world)) 1 = Some t)
   \<and> (\<exists>w'. toggleComplete failing_store 1 sample_world = Inr w'
         \<and> length (calls w') = Suc (length (calls sample_world)))
   \<and> (\<exists>w'. removeTodo failing_store 1 sample_world = Inr w'
         \<and> length (calls w') = Suc (length (calls sample_world)))
   \<and> toggleComplete failing_store 2 sample_world = Inl TypeError
   \<and> removeTodo failing_store 2 sample_world = Inl TypeError
   \<and> toggleComplete failing_store (- 1) sample_world = Inl TypeError
   \<and> removeTodo failing_store (- 1) sample_world = Inl TypeError"
proof -
  have h: "None \<notin> set (todos (app sample_world))"
    by (simp add: sample_world_def)
  have l: "length (todos (app sample_world)) = 2"
    by (simp add: sample_world_def)
  from index_precondition [OF h, of 1 failing_store]
    index_precondition [OF h, of 2 failing_store]
    index_precondition [OF h, of "- 1" failing_store] h l
  show ?thesis by simp
qed

end
